theory Spec2Isabelle
  imports Complex_Main "HOL-Library.Word"
begin

section \<open>Format tags and errors (vips/foreign.go)\<close>

text \<open>
  The enumeration \<open>ImageType\<close> of foreign.go, lines 20-35. The numeric values come from
  the C header and play no role below; only the identity of the tag matters.
\<close>

datatype ImageType =
    ImageTypeUnknown
  | ImageTypeGIF
  | ImageTypeJPEG
  | ImageTypeMagick
  | ImageTypePDF
  | ImageTypePNG
  | ImageTypeSVG
  | ImageTypeTIFF
  | ImageTypeWEBP
  | ImageTypeHEIF
  | ImageTypeBMP

text \<open>
  Go errors as values. \<open>ErrUnsupportedImageFormat\<close> is the package-level error of govips
  that line 232 returns; every other error is created by a collaborator (the XML decoder,
  the bitmap and PNG codecs, the native error bridge) and is identified by its message.
\<close>

datatype error =
    ErrUnsupportedImageFormat
  | ErrExternal string

type_synonym byte = "8 word"
type_synonym bytes = "byte list"

section \<open>Byte-slice primitives of the Go runtime and of package bytes\<close>

text \<open>
  \<open>buf[lo:hi]\<close>. Go panics when the bounds are out of range; the panic is the value
  \<open>None\<close>. The model checks \<open>hi\<close> against the length of the buffer (Go checks against
  the capacity, which is never smaller), so a slice expression that is \<open>Some\<close> here does
  not panic in Go.
\<close>

definition sliceBytes :: "bytes \<Rightarrow> nat \<Rightarrow> nat \<Rightarrow> bytes option" where
  "sliceBytes buf lo hi =
     (if lo \<le> hi \<and> hi \<le> length buf then Some (take (hi - lo) (drop lo buf)) else None)"

text \<open>\<open>bytes.Equal\<close>, \<open>bytes.HasPrefix\<close> and \<open>bytes.Contains\<close>.\<close>

definition Equal :: "bytes \<Rightarrow> bytes \<Rightarrow> bool" where
  "Equal a b = (a = b)"

definition HasPrefix :: "bytes \<Rightarrow> bytes \<Rightarrow> bool" where
  "HasPrefix s p = (length p \<le> length s \<and> Equal (take (length p) s) p)"

fun Contains :: "bytes \<Rightarrow> bytes \<Rightarrow> bool" where
  "Contains [] subslice = (subslice = [])"
| "Contains (x # xs) subslice = (HasPrefix (x # xs) subslice \<or> Contains xs subslice)"

section \<open>The format sniffer\<close>

text \<open>The signatures, lines 106-178, byte for byte.\<close>

definition jpeg :: bytes where "jpeg = [0xFF, 0xD8, 0xFF]"
definition gifHeader :: bytes where "gifHeader = [0x47, 0x49, 0x46]"
definition pngHeader :: bytes where "pngHeader = [0x89, 0x50, 0x4E, 0x47]"
definition tifII :: bytes where "tifII = [0x49, 0x49, 0x2A, 0x00]"
definition tifMM :: bytes where "tifMM = [0x4D, 0x4D, 0x00, 0x2A]"
definition webpHeader :: bytes where "webpHeader = [0x57, 0x45, 0x42, 0x50]"
definition ftyp :: bytes where "ftyp = [0x66, 0x74, 0x79, 0x70]"
definition heic :: bytes where "heic = [0x68, 0x65, 0x69, 0x63]"
definition mif1 :: bytes where "mif1 = [0x6D, 0x69, 0x66, 0x31]"
definition msf1 :: bytes where "msf1 = [0x6D, 0x73, 0x66, 0x31]"
definition avif :: bytes where "avif = [0x61, 0x76, 0x69, 0x66]"
definition svg :: bytes where "svg = [0x3C, 0x73, 0x76, 0x67]"
definition pdf :: bytes where "pdf = [0x25, 0x50, 0x44, 0x46]"
definition bmpHeader :: bytes where "bmpHeader = [0x42, 0x4D]"

definition isJPEG :: "bytes \<Rightarrow> bool" where
  "isJPEG buf = HasPrefix buf jpeg"

definition isGIF :: "bytes \<Rightarrow> bool" where
  "isGIF buf = HasPrefix buf gifHeader"

definition isPNG :: "bytes \<Rightarrow> bool" where
  "isPNG buf = HasPrefix buf pngHeader"

definition isTIFF :: "bytes \<Rightarrow> bool" where
  "isTIFF buf = (HasPrefix buf tifII \<or> HasPrefix buf tifMM)"

text \<open>
  \<open>isWEBP\<close> and \<open>isHEIF\<close> slice the buffer at fixed offsets without a length check of
  their own: the result is \<open>None\<close> where the slice expression panics. In \<open>isHEIF\<close> the
  \<open>&&\<close> evaluates \<open>buf[8:12]\<close> only after \<open>buf[4:8]\<close> matched.
\<close>

definition isWEBP :: "bytes \<Rightarrow> bool option" where
  "isWEBP buf =
     (case sliceBytes buf 8 12 of
        None \<Rightarrow> None
      | Some brand \<Rightarrow> Some (Equal brand webpHeader))"

definition isHEIF :: "bytes \<Rightarrow> bool option" where
  "isHEIF buf =
     (case sliceBytes buf 4 8 of
        None \<Rightarrow> None
      | Some box \<Rightarrow>
          if \<not> Equal box ftyp then Some False
          else (case sliceBytes buf 8 12 of
                  None \<Rightarrow> None
                | Some brand \<Rightarrow>
                    Some (Equal brand heic \<or> Equal brand avif \<or>
                          Equal brand mif1 \<or> Equal brand msf1)))"

text \<open>
  \<open>isSVG\<close>, lines 153-170. The XML decoder (encoding/xml with \<open>Strict = false\<close> and the
  charset reader of golang.org/x/net) is a collaborator outside the repository: it is the
  parameter \<open>xml\<close>, which maps the whole buffer to the pair of the returned error
  and the local name stored in \<open>data.XMLName.Local\<close>. The upper bound of the slice is
  \<open>int(math.Min(1024.0, float64(len(buf))))\<close>, which is \<open>min 1024 (len buf)\<close>: the
  conversion is exact up to 1024 and monotone above.
\<close>

type_synonym xml_decoder = "bytes \<Rightarrow> error option \<times> string"

definition isSVG :: "xml_decoder \<Rightarrow> bytes \<Rightarrow> bool option" where
  "isSVG xml buf =
     (case sliceBytes buf 0 (min 1024 (length buf)) of
        None \<Rightarrow> None
      | Some sub \<Rightarrow>
          if Contains sub svg
          then (let (err, local) = xml buf in Some (err = None \<and> local = ''svg''))
          else Some False)"

definition isPDF :: "bytes \<Rightarrow> bool" where
  "isPDF buf = HasPrefix buf pdf"

definition isBMP :: "bytes \<Rightarrow> bool" where
  "isBMP buf = HasPrefix buf bmpHeader"

text \<open>
  \<open>DetermineImageType\<close>, lines 80-104: the length gate, then the detectors in the order of
  the source, first match wins. \<open>None\<close> is a panic of one of the detectors.
\<close>

definition DetermineImageType :: "xml_decoder \<Rightarrow> bytes \<Rightarrow> ImageType option" where
  "DetermineImageType xml buf =
     (if length buf < 12 then Some ImageTypeUnknown
      else if isJPEG buf then Some ImageTypeJPEG
      else if isPNG buf then Some ImageTypePNG
      else if isGIF buf then Some ImageTypeGIF
      else if isTIFF buf then Some ImageTypeTIFF
      else (case isWEBP buf of
              None \<Rightarrow> None
            | Some webp \<Rightarrow>
                if webp then Some ImageTypeWEBP
                else (case isHEIF buf of
                        None \<Rightarrow> None
                      | Some heif \<Rightarrow>
                          if heif then Some ImageTypeHEIF
                          else (case isSVG xml buf of
                                  None \<Rightarrow> None
                                | Some isSvg \<Rightarrow>
                                    if isSvg then Some ImageTypeSVG
                                    else if isPDF buf then Some ImageTypePDF
                                    else if isBMP buf then Some ImageTypeBMP
                                    else Some ImageTypeUnknown))))"

section \<open>The decode configuration\<close>

text \<open>
  \<open>ImportOptions\<close> and \<open>importParams\<close> are declared outside foreign.go; the records have
  the fields that the literal of lines 190-207 names, with the types their uses at lines
  239-269 fix (Go \<open>int\<close> as \<open>int\<close>, \<open>float64\<close> as \<open>real\<close>). The field \<open>n\<close> of the
  source is \<open>n_frames\<close> here. An override mutator \<open>ImportOption\<close> is a Go
  \<open>func(*ImportOptions)\<close>: it updates the record in place, so it is a function from the
  record to the updated record.
\<close>

record importParams =
  shrink :: int
  fail :: bool
  autorotate :: bool
  page :: int
  n_frames :: int
  scale :: real
  subifd :: int
  dpi :: real
  unlimited :: bool
  thumbnail :: bool
  density :: string

record ImportOptions =
  imageType :: ImageType
  params :: importParams

type_synonym ImportOption = "ImportOptions \<Rightarrow> ImportOptions"

text \<open>Lines 190-207: the defaults; \<open>autorotate\<close> is computed from the sniffed tag.\<close>

definition defaultOptions :: "ImageType \<Rightarrow> ImportOptions" where
  "defaultOptions sniffed =
     \<lparr> imageType = ImageTypeUnknown,
       params = \<lparr> shrink = 1,
                  fail = False,
                  autorotate = (sniffed = ImageTypeHEIF),
                  page = 0,
                  n_frames = 1,
                  scale = 1,
                  subifd = -1,
                  dpi = 72,
                  unlimited = False,
                  thumbnail = False,
                  density = ''72x72'' \<rparr> \<rparr>"

text \<open>Lines 209-211: the mutators are applied to the record from left to right.\<close>

definition applyOptions :: "ImportOption list \<Rightarrow> ImportOptions \<Rightarrow> ImportOptions" where
  "applyOptions opts options = foldl (\<lambda>acc option. option acc) options opts"

text \<open>Lines 216-219: an override other than \<open>ImageTypeUnknown\<close> replaces the sniffed tag.\<close>

definition overriddenType :: "ImageType \<Rightarrow> ImportOptions \<Rightarrow> ImageType" where
  "overriddenType sniffed options =
     (if imageType options \<noteq> ImageTypeUnknown then imageType options else sniffed)"

section \<open>Collaborators of the decode entry point\<close>

text \<open>
  A native image handle \<open>*C.VipsImage\<close>: \<open>None\<close> is the nil pointer, \<open>Some a\<close> a handle
  at address \<open>a\<close>.
\<close>

type_synonym VipsImage_ptr = "nat option"

text \<open>
  The cgo calls of lines 239-269, one constructor per C loader, with the arguments the Go
  code passes after the buffer (pointer and length are the buffer itself). \<open>C.int(x)\<close>
  keeps the low 32 bits of a Go \<open>int\<close>.
\<close>

datatype native_call =
    load_jpeg_buffer bytes int int int
  | load_png_buffer bytes
  | load_webp_buffer bytes int
  | load_tiff_buffer bytes int int int int
  | load_gif_buffer bytes int int
  | load_pdf_buffer bytes int int real real
  | load_svg_buffer bytes real real int
  | load_heif_buffer bytes int int int
  | load_magick_buffer bytes int int string

definition C_int :: "int \<Rightarrow> int" where
  "C_int x = signed_take_bit 31 x"

text \<open>
  What foreign.go uses and does not define:
  \<^item> \<open>supportedImageTypes\<close>, the capability table (a Go \<open>map[ImageType]bool\<close>, where a
    missing key reads as false), filled at startup;
  \<^item> \<open>xmlDecode\<close>, the XML decoder of \<open>isSVG\<close>;
  \<^item> \<open>bmp_Decode\<close> and \<open>png_Encode\<close>, the codecs of \<open>bmpToPNG\<close>; \<open>png_Encode\<close>
    returns the bytes it wrote to the buffer \<open>w\<close> (possibly a partial file) and its error;
  \<^item> \<open>boolToInt\<close> and \<open>handleImageError\<close>, helpers of the package;
  \<^item> \<open>native\<close>, the C loaders: the status code and the value left in \<open>out\<close>.
  They are the fields of the environment that the entry point is run in. Logging
  (\<open>govipsLog\<close>), \<open>startupIfNeeded\<close>, \<open>runtime.KeepAlive\<close> and \<open>C.free\<close> do not
  influence what the entry point returns and are left out.
\<close>

record 'img env =
  supportedImageTypes :: "ImageType \<Rightarrow> bool"
  xmlDecode :: xml_decoder
  bmp_Decode :: "bytes \<Rightarrow> error + 'img"
  png_Encode :: "'img \<Rightarrow> bytes \<times> error option"
  boolToInt :: "bool \<Rightarrow> int"
  native :: "native_call \<Rightarrow> int \<times> VipsImage_ptr"
  handleImageError :: "VipsImage_ptr \<Rightarrow> error"

text \<open>A Go panic, and what a call of the entry point ends in.\<close>

datatype panic =
    SliceBoundsOutOfRange
  | IndexOutOfRange
  | PanicValue error

datatype outcome =
    Returned VipsImage_ptr ImageType "error option"
  | Panicked panic

text \<open>The calls the entry point makes to its collaborators, in order.\<close>

datatype event =
    Call_bmpToPNG bytes
  | Call_IsTypeSupported ImageType
  | Call_native native_call

section \<open>The decode entry point\<close>

text \<open>Lines 73-77.\<close>

definition IsTypeSupported :: "'img env \<Rightarrow> ImageType \<Rightarrow> bool" where
  "IsTypeSupported env t = supportedImageTypes env t"

text \<open>
  \<open>bmpToPNG\<close>, lines 281-294: the pair of the returned slice (nil is the empty list) and
  the returned error.
\<close>

definition bmpToPNG :: "'img env \<Rightarrow> bytes \<Rightarrow> bytes \<times> error option" where
  "bmpToPNG env src =
     (case bmp_Decode env src of
        Inl err \<Rightarrow> ([], Some err)
      | Inr i \<Rightarrow>
          (let (w, err) = png_Encode env i
           in if err \<noteq> None then ([], err) else (w, None)))"

text \<open>
  The switch of lines 237-272: the loader and the arguments chosen for a tag, as a
  function of the buffer; \<open>None\<close> is the default branch.
\<close>

definition loaderCall ::
  "'img env \<Rightarrow> ImageType \<Rightarrow> importParams \<Rightarrow> (bytes \<Rightarrow> native_call) option" where
  "loaderCall env t p =
     (case t of
        ImageTypeJPEG \<Rightarrow> Some (\<lambda>src. load_jpeg_buffer src (C_int (shrink p))
                            (C_int (boolToInt env (fail p))) (C_int (boolToInt env (autorotate p))))
      | ImageTypePNG \<Rightarrow> Some (\<lambda>src. load_png_buffer src)
      | ImageTypeWEBP \<Rightarrow> Some (\<lambda>src. load_webp_buffer src (C_int (shrink p)))
      | ImageTypeTIFF \<Rightarrow> Some (\<lambda>src. load_tiff_buffer src (C_int (page p)) (C_int (n_frames p))
                            (C_int (boolToInt env (autorotate p))) (C_int (subifd p)))
      | ImageTypeGIF \<Rightarrow> Some (\<lambda>src. load_gif_buffer src (C_int (page p)) (C_int (n_frames p)))
      | ImageTypePDF \<Rightarrow> Some (\<lambda>src. load_pdf_buffer src (C_int (page p)) (C_int (n_frames p))
                            (dpi p) (scale p))
      | ImageTypeSVG \<Rightarrow> Some (\<lambda>src. load_svg_buffer src (dpi p) (scale p)
                            (C_int (boolToInt env (unlimited p))))
      | ImageTypeHEIF \<Rightarrow> Some (\<lambda>src. load_heif_buffer src (C_int (page p)) (C_int (n_frames p))
                            (C_int (boolToInt env (thumbnail p))))
      | ImageTypeMagick \<Rightarrow> Some (\<lambda>src. load_magick_buffer src (C_int (page p))
                            (C_int (n_frames p)) (density p))
      | ImageTypeUnknown \<Rightarrow> None
      | ImageTypeBMP \<Rightarrow> None)"

text \<open>
  Lines 230-278: the capability check, the switch, the native call and the translation
  of its status. The default branch panics with the error value; in every other branch
  the first argument of the call is \<open>&src[0]\<close>, which panics on an empty buffer before
  the loader is entered.
\<close>

definition loadSupported ::
  "'img env \<Rightarrow> ImageType \<Rightarrow> importParams \<Rightarrow> bytes \<Rightarrow> event list \<times> outcome" where
  "loadSupported env t p src =
     (if \<not> IsTypeSupported env t
      then ([Call_IsTypeSupported t],
            Returned None ImageTypeUnknown (Some ErrUnsupportedImageFormat))
      else (case loaderCall env t p of
              None \<Rightarrow>
                ([Call_IsTypeSupported t], Panicked (PanicValue ErrUnsupportedImageFormat))
            | Some loader \<Rightarrow>
                if src = [] then ([Call_IsTypeSupported t], Panicked IndexOutOfRange)
                else (let (code, out) = native env (loader src)
                      in ([Call_IsTypeSupported t, Call_native (loader src)],
                          if code \<noteq> 0
                          then Returned None ImageTypeUnknown (Some (handleImageError env out))
                          else Returned out t None))))"

text \<open>
  \<open>vipsLoadFromBuffer\<close>, lines 184-279: sniff, build the configuration, take the override,
  transcode a BMP, then the part above. The result is the list of calls made and the
  outcome.
\<close>

definition vipsLoadFromBuffer ::
  "'img env \<Rightarrow> bytes \<Rightarrow> ImportOption list \<Rightarrow> event list \<times> outcome" where
  "vipsLoadFromBuffer env buf opts =
     (case DetermineImageType (xmlDecode env) buf of
        None \<Rightarrow> ([], Panicked SliceBoundsOutOfRange)
      | Some sniffed \<Rightarrow>
          (let options = applyOptions opts (defaultOptions sniffed);
               t = overriddenType sniffed options
           in if t = ImageTypeBMP
              then (let (src, err) = bmpToPNG env buf
                    in case err of
                         Some e \<Rightarrow> ([Call_bmpToPNG buf], Returned None ImageTypeUnknown (Some e))
                       | None \<Rightarrow>
                           (let (calls, res) = loadSupported env ImageTypePNG (params options) src
                            in (Call_bmpToPNG buf # calls, res)))
              else loadSupported env t (params options) buf))"

section \<open>Reading the list of calls\<close>

text \<open>The format a C loader decodes.\<close>

fun loaderType :: "native_call \<Rightarrow> ImageType" where
  "loaderType (load_jpeg_buffer src a b c) = ImageTypeJPEG"
| "loaderType (load_png_buffer src) = ImageTypePNG"
| "loaderType (load_webp_buffer src a) = ImageTypeWEBP"
| "loaderType (load_tiff_buffer src a b c d) = ImageTypeTIFF"
| "loaderType (load_gif_buffer src a b) = ImageTypeGIF"
| "loaderType (load_pdf_buffer src a b x y) = ImageTypePDF"
| "loaderType (load_svg_buffer src x y c) = ImageTypeSVG"
| "loaderType (load_heif_buffer src a b c) = ImageTypeHEIF"
| "loaderType (load_magick_buffer src a b s) = ImageTypeMagick"

text \<open>The tags the capability table was asked about, and the native calls made.\<close>

fun queriedTypes :: "event list \<Rightarrow> ImageType list" where
  "queriedTypes [] = []"
| "queriedTypes (Call_IsTypeSupported t # es) = t # queriedTypes es"
| "queriedTypes (e # es) = queriedTypes es"

fun nativeCalls :: "event list \<Rightarrow> native_call list" where
  "nativeCalls [] = []"
| "nativeCalls (Call_native c # es) = c # nativeCalls es"
| "nativeCalls (e # es) = nativeCalls es"

fun transcoded :: "event list \<Rightarrow> bytes list" where
  "transcoded [] = []"
| "transcoded (Call_bmpToPNG b # es) = b # transcoded es"
| "transcoded (e # es) = transcoded es"

section \<open>A concrete environment for evaluation\<close>

text \<open>
  Stand-ins for the collaborators, used to evaluate the entry point on concrete buffers:
  an XML decoder that accepts exactly the buffers starting with \<open><svg\<close>, a bitmap codec
  that accepts exactly the buffers starting with \<open>BM\<close>, a PNG encoder that never fails,
  a native engine that always succeeds, a capability table without BMP and the Magick
  delegate, and a mutator that sets the format override.
\<close>

definition stubXmlDecode :: xml_decoder where
  "stubXmlDecode buf =
     (if HasPrefix buf svg then (None, ''svg'') else (Some (ErrExternal ''EOF''), ''''))"

definition stubBmpDecode :: "bytes \<Rightarrow> error + bytes" where
  "stubBmpDecode buf =
     (if HasPrefix buf bmpHeader then Inr (drop 2 buf)
      else Inl (ErrExternal ''bmp: invalid format''))"

definition stubPngEncode :: "bytes \<Rightarrow> bytes \<times> error option" where
  "stubPngEncode i = (pngHeader @ i, None)"

definition stubSupported :: "ImageType \<Rightarrow> bool" where
  "stubSupported t = (t \<noteq> ImageTypeUnknown \<and> t \<noteq> ImageTypeBMP \<and> t \<noteq> ImageTypeMagick)"

definition stubBoolToInt :: "bool \<Rightarrow> int" where
  "stubBoolToInt b = (if b then 1 else 0)"

definition stubNative :: "native_call \<Rightarrow> int \<times> VipsImage_ptr" where
  "stubNative c = (0, Some 1)"

definition stubHandleImageError :: "VipsImage_ptr \<Rightarrow> error" where
  "stubHandleImageError out = ErrExternal ''vips error''"

definition stubEnv :: "bytes env" where
  "stubEnv =
     \<lparr> supportedImageTypes = stubSupported,
       xmlDecode = stubXmlDecode,
       bmp_Decode = stubBmpDecode,
       png_Encode = stubPngEncode,
       boolToInt = stubBoolToInt,
       native = stubNative,
       handleImageError = stubHandleImageError \<rparr>"

text \<open>
  Two more native engines: one that reports status 0 and leaves \<open>out\<close> nil, and one
  that reports a non-zero status.
\<close>

definition nilOutNative :: "native_call \<Rightarrow> int \<times> VipsImage_ptr" where
  "nilOutNative c = (0, None)"

definition failingNative :: "native_call \<Rightarrow> int \<times> VipsImage_ptr" where
  "failingNative c = (1, Some 2)"

definition nilOutEnv :: "bytes env" where
  "nilOutEnv = stubEnv\<lparr>native := nilOutNative\<rparr>"

definition failingEnv :: "bytes env" where
  "failingEnv = stubEnv\<lparr>native := failingNative\<rparr>"

definition withImageType :: "ImageType \<Rightarrow> ImportOption" where
  "withImageType t options = options\<lparr>imageType := t\<rparr>"

definition jpegBuf :: bytes where
  "jpegBuf = [0xFF, 0xD8, 0xFF, 0xE0, 0, 0x10, 0x4A, 0x46, 0x49, 0x46, 0, 1]"

definition bmpBuf :: bytes where
  "bmpBuf = [0x42, 0x4D, 0x3A, 0, 0, 0, 0, 0, 0, 0, 0x36, 0, 0, 0]"

definition bmpFtypBuf :: bytes where
  "bmpFtypBuf = [0x42, 0x4D, 0, 0, 0x66, 0x74, 0x79, 0x70, 0x61, 0x62, 0x63, 0x64]"

definition avifBuf :: bytes where
  "avifBuf = [0, 0, 0, 0x1C, 0x66, 0x74, 0x79, 0x70, 0x61, 0x76, 0x69, 0x66]"

definition webpBuf :: bytes where
  "webpBuf = [1, 2, 3, 4, 5, 6, 7, 8, 0x57, 0x45, 0x42, 0x50]"

definition svgLikeBuf :: bytes where
  "svgLikeBuf = [0x20, 0x3C, 0x73, 0x76, 0x67, 0x20, 0x20, 0x20, 0x20, 0x20, 0x20, 0x20]"

section \<open>Properties of the format sniffer\<close>

lemma slice_in_range:
  "lo \<le> hi \<Longrightarrow> hi \<le> length buf \<Longrightarrow> sliceBytes buf lo hi = Some (take (hi - lo) (drop lo buf))"
  by (simp add: sliceBytes_def)

lemma isWEBP_gate: "12 \<le> length buf \<Longrightarrow> isWEBP buf = Some (take 4 (drop 8 buf) = webpHeader)"
  by (simp add: isWEBP_def slice_in_range Equal_def)

lemma isHEIF_gate:
  "12 \<le> length buf \<Longrightarrow>
   isHEIF buf = Some (take 4 (drop 4 buf) = ftyp \<and>
     (take 4 (drop 8 buf) = heic \<or> take 4 (drop 8 buf) = avif \<or>
      take 4 (drop 8 buf) = mif1 \<or> take 4 (drop 8 buf) = msf1))"
  by (simp add: isHEIF_def slice_in_range Equal_def)

lemma isSVG_total:
  "isSVG xml buf =
     Some (Contains (take (min 1024 (length buf)) buf) svg \<and>
           fst (xml buf) = None \<and> snd (xml buf) = ''svg'')"
  by (simp add: isSVG_def sliceBytes_def split: prod.splits)

lemma DetermineImageType_chain:
  "DetermineImageType xml buf = Some
     (if length buf < 12 then ImageTypeUnknown
      else if isJPEG buf then ImageTypeJPEG
      else if isPNG buf then ImageTypePNG
      else if isGIF buf then ImageTypeGIF
      else if isTIFF buf then ImageTypeTIFF
      else if take 4 (drop 8 buf) = webpHeader then ImageTypeWEBP
      else if take 4 (drop 4 buf) = ftyp \<and>
              (take 4 (drop 8 buf) = heic \<or> take 4 (drop 8 buf) = avif \<or>
               take 4 (drop 8 buf) = mif1 \<or> take 4 (drop 8 buf) = msf1) then ImageTypeHEIF
      else if Contains (take (min 1024 (length buf)) buf) svg \<and>
              fst (xml buf) = None \<and> snd (xml buf) = ''svg'' then ImageTypeSVG
      else if isPDF buf then ImageTypePDF
      else if isBMP buf then ImageTypeBMP
      else ImageTypeUnknown)"
proof (cases "length buf < 12")
  case True
  then show ?thesis by (simp add: DetermineImageType_def)
next
  case False
  then have "12 \<le> length buf" by simp
  then show ?thesis
    by (auto simp add: DetermineImageType_def isWEBP_gate isHEIF_gate isSVG_total)
qed

lemmas sniff_defs = isJPEG_def isPNG_def isGIF_def isTIFF_def isPDF_def isBMP_def
  HasPrefix_def Equal_def jpeg_def pngHeader_def gifHeader_def tifII_def tifMM_def
  webpHeader_def ftyp_def heic_def avif_def mif1_def msf1_def svg_def pdf_def bmpHeader_def

text \<open>
  Claim C8. A buffer shorter than 12 bytes is classified \<open>ImageTypeUnknown\<close>, whatever
  its contents and whatever the XML decoder would say.
\<close>

theorem short_buffer_is_unknown:
  "length buf < 12 \<Longrightarrow> DetermineImageType xml buf = Some ImageTypeUnknown"
  by (simp add: DetermineImageType_def)

theorem short_buffer_is_unknown_witness:
  "length [0xFF, 0xD8, 0xFF :: byte] < 12 \<and>
   DetermineImageType stubXmlDecode [0xFF, 0xD8, 0xFF] = Some ImageTypeUnknown"
  using short_buffer_is_unknown [of "[0xFF, 0xD8, 0xFF]" stubXmlDecode] by simp

text \<open>
  Claim C9. \<open>DetermineImageType\<close> returns a tag for every buffer: no slice expression
  of a detector panics. The slice of \<open>isSVG\<close> is in range for every buffer, and the
  fixed-offset slices of \<open>isWEBP\<close> and \<open>isHEIF\<close> are in range for every buffer of at
  least 12 bytes, which is where \<open>DetermineImageType\<close> calls them. The result is a
  function of the buffer and of the XML decoder alone.
\<close>

theorem classify_total:
  "(\<exists>t. DetermineImageType xml buf = Some t) \<and>
   isSVG xml buf \<noteq> None \<and>
   (12 \<le> length buf \<longrightarrow> isWEBP buf \<noteq> None \<and> isHEIF buf \<noteq> None)"
  by (simp add: DetermineImageType_chain isSVG_total isWEBP_gate isHEIF_gate)

theorem classify_total_witness:
  "12 \<le> length avifBuf \<and>
   DetermineImageType stubXmlDecode avifBuf = Some ImageTypeHEIF \<and>
   isSVG stubXmlDecode avifBuf \<noteq> None \<and> isWEBP avifBuf \<noteq> None \<and> isHEIF avifBuf \<noteq> None"
  using classify_total [of stubXmlDecode avifBuf]
  by (simp add: avifBuf_def DetermineImageType_chain sniff_defs)

text \<open>
  Claim C7. For a buffer of at least 12 bytes that matches none of the JPEG, PNG, GIF and
  TIFF prefixes, the result is \<open>ImageTypeWEBP\<close> exactly when \<open>buf[8:12]\<close> is
  \<open>57 45 42 50\<close>; the first 8 bytes are not looked at (the witness has no RIFF prefix).
\<close>

theorem webp_by_offset_8_only:
  assumes "12 \<le> length buf"
    and "\<not> isJPEG buf" and "\<not> isPNG buf" and "\<not> isGIF buf" and "\<not> isTIFF buf"
  shows "(DetermineImageType xml buf = Some ImageTypeWEBP) =
         (sliceBytes buf 8 12 = Some webpHeader)"
  using assms by (simp add: DetermineImageType_chain slice_in_range)

theorem webp_by_offset_8_only_witness:
  "12 \<le> length webpBuf \<and> \<not> isJPEG webpBuf \<and> \<not> isPNG webpBuf \<and> \<not> isGIF webpBuf \<and>
   \<not> isTIFF webpBuf \<and> sliceBytes webpBuf 8 12 = Some webpHeader \<and>
   take 4 webpBuf \<noteq> [0x52, 0x49, 0x46, 0x46] \<and>
   DetermineImageType stubXmlDecode webpBuf = Some ImageTypeWEBP"
  using webp_by_offset_8_only [of webpBuf stubXmlDecode]
  by (simp add: webpBuf_def sliceBytes_def sniff_defs)

text \<open>
  Claim C5, amended. For a buffer of at least 12 bytes with \<open>ftyp\<close> at offset 4-8 that
  no earlier rule (JPEG, PNG, GIF, TIFF, WEBP) matches: with brand \<open>heic\<close>, \<open>avif\<close>,
  \<open>mif1\<close> or \<open>msf1\<close> at offset 8-12 the result is \<open>ImageTypeHEIF\<close>; with any other
  brand the result is not \<open>ImageTypeHEIF\<close> but what the later SVG, PDF and BMP checks
  give, which is \<open>ImageTypeUnknown\<close> only when none of them matches.
\<close>

theorem heif_brand_rule:
  assumes "12 \<le> length buf"
    and "sliceBytes buf 4 8 = Some ftyp" and "sliceBytes buf 8 12 = Some brand"
    and "\<not> isJPEG buf" and "\<not> isPNG buf" and "\<not> isGIF buf" and "\<not> isTIFF buf"
    and "isWEBP buf = Some False"
  shows "(brand = heic \<or> brand = avif \<or> brand = mif1 \<or> brand = msf1 \<longrightarrow>
            DetermineImageType xml buf = Some ImageTypeHEIF) \<and>
         (brand \<noteq> heic \<and> brand \<noteq> avif \<and> brand \<noteq> mif1 \<and> brand \<noteq> msf1 \<longrightarrow>
            DetermineImageType xml buf \<noteq> Some ImageTypeHEIF \<and>
            DetermineImageType xml buf =
              Some (if isSVG xml buf = Some True then ImageTypeSVG
                    else if isPDF buf then ImageTypePDF
                    else if isBMP buf then ImageTypeBMP
                    else ImageTypeUnknown))"
  using assms
  by (auto simp add: DetermineImageType_chain slice_in_range isWEBP_gate isSVG_total)

theorem heif_brand_rule_witness:
  "12 \<le> length avifBuf \<and> sliceBytes avifBuf 4 8 = Some ftyp \<and> sliceBytes avifBuf 8 12 = Some avif \<and>
   \<not> isJPEG avifBuf \<and> \<not> isPNG avifBuf \<and> \<not> isGIF avifBuf \<and> \<not> isTIFF avifBuf \<and>
   isWEBP avifBuf = Some False \<and>
   DetermineImageType stubXmlDecode avifBuf = Some ImageTypeHEIF"
  using heif_brand_rule [of avifBuf avif stubXmlDecode]
  by (simp add: avifBuf_def sliceBytes_def isWEBP_def sniff_defs)

text \<open>
  Claim C5 as stated fails: the buffer \<open>BM 00 00 ftyp abcd\<close> has \<open>ftyp\<close> at offset
  4-8, a brand that is none of the four, matches no earlier rule, and is classified
  \<open>ImageTypeBMP\<close> by the later BMP check, not \<open>ImageTypeUnknown\<close>.
\<close>

theorem other_brand_not_always_unknown:
  "12 \<le> length bmpFtypBuf \<and> sliceBytes bmpFtypBuf 4 8 = Some ftyp \<and>
   sliceBytes bmpFtypBuf 8 12 = Some [0x61, 0x62, 0x63, 0x64] \<and>
   [0x61, 0x62, 0x63, 0x64] \<noteq> heic \<and> [0x61, 0x62, 0x63, 0x64] \<noteq> avif \<and>
   [0x61, 0x62, 0x63, 0x64] \<noteq> mif1 \<and> [0x61, 0x62, 0x63, 0x64] \<noteq> msf1 \<and>
   \<not> isJPEG bmpFtypBuf \<and> \<not> isPNG bmpFtypBuf \<and> \<not> isGIF bmpFtypBuf \<and>
   \<not> isTIFF bmpFtypBuf \<and> isWEBP bmpFtypBuf = Some False \<and>
   DetermineImageType stubXmlDecode bmpFtypBuf = Some ImageTypeBMP \<and>
   DetermineImageType stubXmlDecode bmpFtypBuf \<noteq> Some ImageTypeUnknown"
  by (simp add: bmpFtypBuf_def DetermineImageType_chain sliceBytes_def isWEBP_def sniff_defs)

text \<open>
  Claim C6. Where the first min(1024, length) bytes contain \<open><svg\<close> but the XML decoder
  returns an error or a root name other than \<open>svg\<close>, the result is never
  \<open>ImageTypeSVG\<close>; if no earlier rule matched, the result is that of the PDF check, then
  the BMP check, then \<open>ImageTypeUnknown\<close>.
\<close>

theorem unconfirmed_svg_is_not_svg:
  assumes "Contains (take (min 1024 (length buf)) buf) svg"
    and "fst (xml buf) \<noteq> None \<or> snd (xml buf) \<noteq> ''svg''"
  shows "DetermineImageType xml buf \<noteq> Some ImageTypeSVG \<and>
         (12 \<le> length buf \<and> \<not> isJPEG buf \<and> \<not> isPNG buf \<and> \<not> isGIF buf \<and> \<not> isTIFF buf \<and>
          isWEBP buf = Some False \<and> isHEIF buf = Some False \<longrightarrow>
            DetermineImageType xml buf =
              Some (if isPDF buf then ImageTypePDF
                    else if isBMP buf then ImageTypeBMP
                    else ImageTypeUnknown))"
  using assms
  by (auto simp add: DetermineImageType_chain isWEBP_gate isHEIF_gate)

theorem unconfirmed_svg_is_not_svg_witness:
  "Contains (take (min 1024 (length svgLikeBuf)) svgLikeBuf) svg \<and>
   fst (stubXmlDecode svgLikeBuf) \<noteq> None \<and>
   12 \<le> length svgLikeBuf \<and> \<not> isJPEG svgLikeBuf \<and> \<not> isPNG svgLikeBuf \<and>
   \<not> isGIF svgLikeBuf \<and> \<not> isTIFF svgLikeBuf \<and>
   isWEBP svgLikeBuf = Some False \<and> isHEIF svgLikeBuf = Some False \<and>
   DetermineImageType stubXmlDecode svgLikeBuf = Some ImageTypeUnknown"
  using unconfirmed_svg_is_not_svg [of svgLikeBuf stubXmlDecode]
  by (simp add: svgLikeBuf_def stubXmlDecode_def sliceBytes_def isWEBP_def isHEIF_def sniff_defs)

section \<open>Properties of the decode entry point\<close>

lemma loaderCall_default:
  "loaderCall env ImageTypeUnknown p = None" "loaderCall env ImageTypeBMP p = None"
  by (simp_all add: loaderCall_def)

lemma loaderCall_type:
  "loaderCall env t p = Some loader \<Longrightarrow> loaderType (loader src) = t"
  by (cases t) (auto simp add: loaderCall_def)

lemma loadSupported_unsupported:
  "\<not> IsTypeSupported env t \<Longrightarrow>
   loadSupported env t p src =
     ([Call_IsTypeSupported t], Returned None ImageTypeUnknown (Some ErrUnsupportedImageFormat))"
  by (simp add: loadSupported_def)

lemma loadSupported_calls:
  "fst (loadSupported env t p src) = [Call_IsTypeSupported t] \<or>
   (\<exists>loader. loaderCall env t p = Some loader \<and>
      fst (loadSupported env t p src) = [Call_IsTypeSupported t, Call_native (loader src)])"
  by (auto simp add: loadSupported_def split: option.splits prod.splits)

lemma loadSupported_returned:
  assumes "snd (loadSupported env t p src) = Returned h t' err"
  shows "(err \<noteq> None \<longrightarrow> h = None \<and> t' = ImageTypeUnknown) \<and>
         (err = None \<longrightarrow> t' = t \<and> t \<noteq> ImageTypeUnknown \<and> t \<noteq> ImageTypeBMP \<and>
            (\<exists>loader. loaderCall env t p = Some loader \<and> native env (loader src) = (0, h)))"
  using assms
  by (auto simp add: loadSupported_def loaderCall_default split: option.splits prod.splits if_splits)

lemma vipsLoadFromBuffer_plain:
  assumes "DetermineImageType (xmlDecode env) buf = Some sniffed"
    and "overriddenType sniffed (applyOptions opts (defaultOptions sniffed)) = t"
    and "t \<noteq> ImageTypeBMP"
  shows "vipsLoadFromBuffer env buf opts =
           loadSupported env t (params (applyOptions opts (defaultOptions sniffed))) buf"
  using assms by (simp add: vipsLoadFromBuffer_def Let_def)

lemma vipsLoadFromBuffer_bmp:
  assumes "DetermineImageType (xmlDecode env) buf = Some sniffed"
    and "overriddenType sniffed (applyOptions opts (defaultOptions sniffed)) = ImageTypeBMP"
  shows "vipsLoadFromBuffer env buf opts =
           (case snd (bmpToPNG env buf) of
              Some e \<Rightarrow> ([Call_bmpToPNG buf], Returned None ImageTypeUnknown (Some e))
            | None \<Rightarrow>
                (Call_bmpToPNG buf #
                   fst (loadSupported env ImageTypePNG
                          (params (applyOptions opts (defaultOptions sniffed))) (fst (bmpToPNG env buf))),
                 snd (loadSupported env ImageTypePNG
                          (params (applyOptions opts (defaultOptions sniffed))) (fst (bmpToPNG env buf)))))"
  using assms by (simp add: vipsLoadFromBuffer_def Let_def split: prod.splits option.splits)

lemma bmpToPNG_cases:
  "bmpToPNG env src =
     (case bmp_Decode env src of
        Inl e \<Rightarrow> ([], Some e)
      | Inr i \<Rightarrow> (case snd (png_Encode env i) of
                    Some e \<Rightarrow> ([], Some e)
                  | None \<Rightarrow> (fst (png_Encode env i), None)))"
  by (auto simp add: bmpToPNG_def split: sum.splits prod.splits option.splits)

lemma stubEnv_sel:
  "supportedImageTypes stubEnv = stubSupported"
  "xmlDecode stubEnv = stubXmlDecode"
  "bmp_Decode stubEnv = stubBmpDecode"
  "png_Encode stubEnv = stubPngEncode"
  "boolToInt stubEnv = stubBoolToInt"
  "native stubEnv = stubNative"
  "handleImageError stubEnv = stubHandleImageError"
  by (simp_all add: stubEnv_def)

lemmas stub_defs = stubEnv_sel stubXmlDecode_def stubBmpDecode_def stubPngEncode_def
  stubSupported_def stubBoolToInt_def stubNative_def stubHandleImageError_def
  withImageType_def IsTypeSupported_def

lemma sniff_jpegBuf: "DetermineImageType xml jpegBuf = Some ImageTypeJPEG"
  by (simp add: jpegBuf_def DetermineImageType_def sniff_defs)

lemma sniff_bmpBuf: "DetermineImageType stubXmlDecode bmpBuf = Some ImageTypeBMP"
  by (simp add: bmpBuf_def DetermineImageType_chain sniff_defs)

lemma sniff_empty: "DetermineImageType xml [] = Some ImageTypeUnknown"
  by (simp add: DetermineImageType_def)

lemma bmpToPNG_stub_bmpBuf:
  "bmpToPNG stubEnv bmpBuf = (pngHeader @ drop 2 bmpBuf, None)"
  by (simp add: bmpToPNG_def stub_defs bmpBuf_def sniff_defs)

lemma bmpToPNG_stub_empty:
  "bmpToPNG stubEnv [] = ([], Some (ErrExternal ''bmp: invalid format''))"
  by (simp add: bmpToPNG_def stub_defs sniff_defs)

lemma loadSupported_jpegBuf_stub:
  "loadSupported stubEnv ImageTypeJPEG p jpegBuf =
     ([Call_IsTypeSupported ImageTypeJPEG,
       Call_native (load_jpeg_buffer jpegBuf (C_int (shrink p))
          (C_int (stubBoolToInt (fail p))) (C_int (stubBoolToInt (autorotate p))))],
      Returned (Some 1) ImageTypeJPEG None)"
  by (simp add: loadSupported_def loaderCall_def IsTypeSupported_def stubEnv_sel
      stubSupported_def stubNative_def jpegBuf_def)

lemma applyOptions_Nil: "applyOptions [] options = options"
  by (simp add: applyOptions_def)

lemma queriedTypes_loadSupported:
  "queriedTypes (fst (loadSupported env t p src)) = [t]"
  using loadSupported_calls [of env t p src] by auto

lemma transcoded_loadSupported:
  "transcoded (fst (loadSupported env t p src)) = []"
  using loadSupported_calls [of env t p src] by auto

lemma nativeCalls_loadSupported:
  "c \<in> set (nativeCalls (fst (loadSupported env t p src))) \<Longrightarrow> loaderType c = t"
  using loadSupported_calls [of env t p src] by (auto simp add: loaderCall_type)

lemma nativeCalls_loadSupported_ok:
  assumes "snd (loadSupported env t p src) = Returned h t' None"
  shows "\<exists>c \<in> set (nativeCalls (fst (loadSupported env t p src))). native env c = (0, h)"
  using assms
  by (auto simp add: loadSupported_def split: option.splits prod.splits if_splits)

lemma jpegBuf_nonempty: "jpegBuf \<noteq> []"
  by (simp add: jpegBuf_def)

lemma failingEnv_sel:
  "supportedImageTypes failingEnv = stubSupported"
  "xmlDecode failingEnv = stubXmlDecode"
  "boolToInt failingEnv = stubBoolToInt"
  "native failingEnv = failingNative"
  "handleImageError failingEnv = stubHandleImageError"
  by (simp_all add: failingEnv_def stubEnv_def)

lemma nilOutEnv_sel:
  "supportedImageTypes nilOutEnv = stubSupported"
  "xmlDecode nilOutEnv = stubXmlDecode"
  "boolToInt nilOutEnv = stubBoolToInt"
  "native nilOutEnv = nilOutNative"
  "handleImageError nilOutEnv = stubHandleImageError"
  by (simp_all add: nilOutEnv_def stubEnv_def)

lemma loadSupported_nonzero:
  "c \<in> set (nativeCalls (fst (loadSupported env t p src))) \<Longrightarrow> fst (native env c) \<noteq> 0 \<Longrightarrow>
   snd (loadSupported env t p src) =
     Returned None ImageTypeUnknown (Some (handleImageError env (snd (native env c))))"
  by (auto simp add: loadSupported_def split: option.splits prod.splits if_splits)

lemma loadSupported_discipline:
  "\<forall>h t' err. snd (loadSupported env t p src) = Returned h t' err \<longrightarrow>
     (err \<noteq> None \<longrightarrow> h = None \<and> t' = ImageTypeUnknown) \<and>
     (t' \<noteq> ImageTypeUnknown \<longrightarrow>
        err = None \<and>
        (\<exists>c \<in> set (nativeCalls (fst (loadSupported env t p src))).
           loaderType c = t' \<and> native env c = (0, h)))"
  by (auto simp add: loadSupported_def loaderCall_default loaderCall_type
      split: option.splits prod.splits if_splits)

text \<open>
  Claim C1, amended. For every buffer and every list of mutators that leaves the format
  override at a tag other than \<open>ImageTypeUnknown\<close> and \<open>ImageTypeBMP\<close> which the
  capability table marks unsupported, the entry point returns the nil handle, the tag
  \<open>ImageTypeUnknown\<close> and \<open>ErrUnsupportedImageFormat\<close>; it does not panic, and the only
  call it makes is the capability query, so the switch is not reached.
\<close>

theorem unsupported_override_fails_fast:
  assumes "DetermineImageType (xmlDecode env) buf = Some sniffed"
    and "imageType (applyOptions opts (defaultOptions sniffed)) = t"
    and "t \<noteq> ImageTypeUnknown" and "t \<noteq> ImageTypeBMP"
    and "\<not> IsTypeSupported env t"
  shows "vipsLoadFromBuffer env buf opts =
           ([Call_IsTypeSupported t],
            Returned None ImageTypeUnknown (Some ErrUnsupportedImageFormat))"
proof -
  from assms(2,3) have "overriddenType sniffed (applyOptions opts (defaultOptions sniffed)) = t"
    by (simp add: overriddenType_def)
  with assms(1,4) have "vipsLoadFromBuffer env buf opts =
      loadSupported env t (params (applyOptions opts (defaultOptions sniffed))) buf"
    by (simp add: vipsLoadFromBuffer_plain)
  with assms(5) show ?thesis by (simp add: loadSupported_unsupported)
qed

theorem unsupported_override_fails_fast_witness:
  "DetermineImageType (xmlDecode stubEnv) jpegBuf = Some ImageTypeJPEG \<and>
   imageType (applyOptions [withImageType ImageTypeMagick] (defaultOptions ImageTypeJPEG)) =
     ImageTypeMagick \<and>
   \<not> IsTypeSupported stubEnv ImageTypeMagick \<and>
   vipsLoadFromBuffer stubEnv jpegBuf [withImageType ImageTypeMagick] =
     ([Call_IsTypeSupported ImageTypeMagick],
      Returned None ImageTypeUnknown (Some ErrUnsupportedImageFormat))"
  using unsupported_override_fails_fast
    [of stubEnv jpegBuf ImageTypeJPEG "[withImageType ImageTypeMagick]" ImageTypeMagick]
  by (simp add: sniff_jpegBuf applyOptions_def defaultOptions_def stub_defs)

text \<open>
  Claim C1 as stated fails for the two tags left out above. With BMP marked unsupported
  and the override set to BMP, the empty buffer ends in the error of the bitmap codec,
  not in \<open>ErrUnsupportedImageFormat\<close>, and a decodable bitmap reaches the PNG loader:
  the transcoding step comes before the capability check, which then asks about PNG.
  With the override set to \<open>ImageTypeUnknown\<close>, which is unsupported, a JPEG buffer is
  dispatched to the JPEG loader: \<open>ImageTypeUnknown\<close> is the value of "no override".
\<close>

theorem unsupported_override_bmp_counterexample:
  "\<not> IsTypeSupported stubEnv ImageTypeBMP \<and>
   imageType (applyOptions [withImageType ImageTypeBMP] (defaultOptions ImageTypeUnknown)) =
     ImageTypeBMP \<and>
   vipsLoadFromBuffer stubEnv [] [withImageType ImageTypeBMP] =
     ([Call_bmpToPNG []],
      Returned None ImageTypeUnknown (Some (ErrExternal ''bmp: invalid format''))) \<and>
   vipsLoadFromBuffer stubEnv bmpBuf [withImageType ImageTypeBMP] =
     ([Call_bmpToPNG bmpBuf, Call_IsTypeSupported ImageTypePNG,
       Call_native (load_png_buffer (pngHeader @ drop 2 bmpBuf))],
      Returned (Some 1) ImageTypePNG None) \<and>
   \<not> IsTypeSupported stubEnv ImageTypeUnknown \<and>
   imageType (applyOptions [withImageType ImageTypeUnknown] (defaultOptions ImageTypeJPEG)) =
     ImageTypeUnknown \<and>
   snd (vipsLoadFromBuffer stubEnv jpegBuf [withImageType ImageTypeUnknown]) =
     Returned (Some 1) ImageTypeJPEG None"
proof -
  have a: "\<not> IsTypeSupported stubEnv ImageTypeBMP"
    by (simp add: stub_defs)
  have b: "imageType (applyOptions [withImageType ImageTypeBMP] (defaultOptions ImageTypeUnknown)) =
     ImageTypeBMP"
    by (simp add: applyOptions_def withImageType_def)
  have c: "vipsLoadFromBuffer stubEnv [] [withImageType ImageTypeBMP] =
     ([Call_bmpToPNG []],
      Returned None ImageTypeUnknown (Some (ErrExternal ''bmp: invalid format'')))"
    by (simp add: vipsLoadFromBuffer_def sniff_empty bmpToPNG_stub_empty overriddenType_def
        applyOptions_def withImageType_def stubEnv_sel)
  have d: "vipsLoadFromBuffer stubEnv bmpBuf [withImageType ImageTypeBMP] =
     ([Call_bmpToPNG bmpBuf, Call_IsTypeSupported ImageTypePNG,
       Call_native (load_png_buffer (pngHeader @ drop 2 bmpBuf))],
      Returned (Some 1) ImageTypePNG None)"
    using sniff_bmpBuf
    by (simp add: vipsLoadFromBuffer_def bmpToPNG_stub_bmpBuf overriddenType_def
        applyOptions_def withImageType_def loadSupported_def loaderCall_def
        IsTypeSupported_def stubEnv_sel stubSupported_def stubNative_def pngHeader_def)
  have e: "\<not> IsTypeSupported stubEnv ImageTypeUnknown"
    by (simp add: stub_defs)
  have f: "imageType (applyOptions [withImageType ImageTypeUnknown]
      (defaultOptions ImageTypeJPEG)) = ImageTypeUnknown"
    by (simp add: applyOptions_def withImageType_def)
  have g: "snd (vipsLoadFromBuffer stubEnv jpegBuf [withImageType ImageTypeUnknown]) =
     Returned (Some 1) ImageTypeJPEG None"
    by (simp add: vipsLoadFromBuffer_def sniff_jpegBuf overriddenType_def applyOptions_def
        withImageType_def defaultOptions_def loadSupported_jpegBuf_stub)
  from a b c d e f g show ?thesis by simp
qed

text \<open>
  Claim C2. Whenever the tag after the override is \<open>ImageTypeBMP\<close>: if the bitmap
  decoder fails, or it succeeds and the PNG encoder fails, the entry point returns the nil
  handle, \<open>ImageTypeUnknown\<close> and that error, and makes no call after the transcoding
  (whatever the encoder wrote is dropped); if both succeed, the rest of the entry point
  runs on the encoded buffer with the tag \<open>ImageTypePNG\<close>; and every successful return
  reports \<open>ImageTypePNG\<close>.
\<close>

theorem bmp_is_transcoded_to_png:
  assumes "DetermineImageType (xmlDecode env) buf = Some sniffed"
    and "overriddenType sniffed (applyOptions opts (defaultOptions sniffed)) = ImageTypeBMP"
  shows "(\<forall>e. bmp_Decode env buf = Inl e \<longrightarrow>
            vipsLoadFromBuffer env buf opts =
              ([Call_bmpToPNG buf], Returned None ImageTypeUnknown (Some e))) \<and>
         (\<forall>i w e. bmp_Decode env buf = Inr i \<and> png_Encode env i = (w, Some e) \<longrightarrow>
            vipsLoadFromBuffer env buf opts =
              ([Call_bmpToPNG buf], Returned None ImageTypeUnknown (Some e))) \<and>
         (\<forall>i w. bmp_Decode env buf = Inr i \<and> png_Encode env i = (w, None) \<longrightarrow>
            fst (vipsLoadFromBuffer env buf opts) =
              Call_bmpToPNG buf #
                fst (loadSupported env ImageTypePNG
                       (params (applyOptions opts (defaultOptions sniffed))) w) \<and>
            snd (vipsLoadFromBuffer env buf opts) =
              snd (loadSupported env ImageTypePNG
                     (params (applyOptions opts (defaultOptions sniffed))) w)) \<and>
         (\<forall>h t. snd (vipsLoadFromBuffer env buf opts) = Returned h t None \<longrightarrow>
            t = ImageTypePNG)"
proof -
  note unfold = vipsLoadFromBuffer_bmp [OF assms]
  have fail_decode: "\<forall>e. bmp_Decode env buf = Inl e \<longrightarrow>
      vipsLoadFromBuffer env buf opts =
        ([Call_bmpToPNG buf], Returned None ImageTypeUnknown (Some e))"
    by (simp add: unfold bmpToPNG_cases)
  have fail_encode: "\<forall>i w e. bmp_Decode env buf = Inr i \<and> png_Encode env i = (w, Some e) \<longrightarrow>
      vipsLoadFromBuffer env buf opts =
        ([Call_bmpToPNG buf], Returned None ImageTypeUnknown (Some e))"
    by (simp add: unfold bmpToPNG_cases)
  have continue: "\<forall>i w. bmp_Decode env buf = Inr i \<and> png_Encode env i = (w, None) \<longrightarrow>
      fst (vipsLoadFromBuffer env buf opts) =
        Call_bmpToPNG buf #
          fst (loadSupported env ImageTypePNG
                 (params (applyOptions opts (defaultOptions sniffed))) w) \<and>
      snd (vipsLoadFromBuffer env buf opts) =
        snd (loadSupported env ImageTypePNG
               (params (applyOptions opts (defaultOptions sniffed))) w)"
    by (simp add: unfold bmpToPNG_cases)
  have tag: "\<forall>h t. snd (vipsLoadFromBuffer env buf opts) = Returned h t None \<longrightarrow>
      t = ImageTypePNG"
    by (auto simp add: unfold split: option.splits dest: loadSupported_returned)
  from fail_decode fail_encode continue tag show ?thesis by blast
qed

theorem bmp_is_transcoded_to_png_witness:
  "DetermineImageType (xmlDecode stubEnv) bmpBuf = Some ImageTypeBMP \<and>
   overriddenType ImageTypeBMP (applyOptions [] (defaultOptions ImageTypeBMP)) = ImageTypeBMP \<and>
   bmp_Decode stubEnv bmpBuf = Inr (drop 2 bmpBuf) \<and>
   png_Encode stubEnv (drop 2 bmpBuf) = (pngHeader @ drop 2 bmpBuf, None) \<and>
   vipsLoadFromBuffer stubEnv bmpBuf [] =
     ([Call_bmpToPNG bmpBuf, Call_IsTypeSupported ImageTypePNG,
       Call_native (load_png_buffer (pngHeader @ drop 2 bmpBuf))],
      Returned (Some 1) ImageTypePNG None)"
proof -
  have a: "DetermineImageType (xmlDecode stubEnv) bmpBuf = Some ImageTypeBMP"
    by (simp add: stubEnv_sel sniff_bmpBuf)
  have b: "overriddenType ImageTypeBMP (applyOptions [] (defaultOptions ImageTypeBMP)) =
      ImageTypeBMP"
    by (simp add: overriddenType_def applyOptions_Nil defaultOptions_def)
  have c: "bmp_Decode stubEnv bmpBuf = Inr (drop 2 bmpBuf)"
    by (simp add: stubEnv_sel stubBmpDecode_def bmpBuf_def sniff_defs)
  have d: "png_Encode stubEnv (drop 2 bmpBuf) = (pngHeader @ drop 2 bmpBuf, None)"
    by (simp add: stubEnv_sel stubPngEncode_def)
  have e: "loadSupported stubEnv ImageTypePNG p (pngHeader @ drop 2 bmpBuf) =
      ([Call_IsTypeSupported ImageTypePNG,
        Call_native (load_png_buffer (pngHeader @ drop 2 bmpBuf))],
       Returned (Some 1) ImageTypePNG None)" for p
    by (simp add: loadSupported_def loaderCall_def IsTypeSupported_def stubEnv_sel
        stubSupported_def stubNative_def pngHeader_def)
  from bmp_is_transcoded_to_png [OF a b] c d
  have "fst (vipsLoadFromBuffer stubEnv bmpBuf []) =
          Call_bmpToPNG bmpBuf #
            fst (loadSupported stubEnv ImageTypePNG
                   (params (applyOptions [] (defaultOptions ImageTypeBMP)))
                   (pngHeader @ drop 2 bmpBuf)) \<and>
        snd (vipsLoadFromBuffer stubEnv bmpBuf []) =
          snd (loadSupported stubEnv ImageTypePNG
                 (params (applyOptions [] (defaultOptions ImageTypeBMP)))
                 (pngHeader @ drop 2 bmpBuf))"
    by blast
  then have "vipsLoadFromBuffer stubEnv bmpBuf [] =
     ([Call_bmpToPNG bmpBuf, Call_IsTypeSupported ImageTypePNG,
       Call_native (load_png_buffer (pngHeader @ drop 2 bmpBuf))],
      Returned (Some 1) ImageTypePNG None)"
    by (simp add: e prod_eq_iff)
  with a b c d show ?thesis by simp
qed

text \<open>
  Claim C3, amended. Let \<open>t\<close> be the format override after all the mutators have run, in
  order, and let it be other than \<open>ImageTypeUnknown\<close>. Then, whatever the sniffed tag
  is: the buffer is transcoded exactly when \<open>t\<close> is BMP; the capability table is asked
  about \<open>t\<close>, the loader called is the one of \<open>t\<close> and a successful return reports
  \<open>t\<close>, with PNG in the place of \<open>t\<close> when \<open>t\<close> is BMP.
\<close>

theorem override_replaces_sniffed_tag:
  assumes "DetermineImageType (xmlDecode env) buf = Some sniffed"
    and "imageType (applyOptions opts (defaultOptions sniffed)) = t"
    and "t \<noteq> ImageTypeUnknown"
  shows "transcoded (fst (vipsLoadFromBuffer env buf opts)) =
           (if t = ImageTypeBMP then [buf] else []) \<and>
         (\<forall>q \<in> set (queriedTypes (fst (vipsLoadFromBuffer env buf opts))).
            q = (if t = ImageTypeBMP then ImageTypePNG else t)) \<and>
         (\<forall>c \<in> set (nativeCalls (fst (vipsLoadFromBuffer env buf opts))).
            loaderType c = (if t = ImageTypeBMP then ImageTypePNG else t)) \<and>
         (\<forall>h r. snd (vipsLoadFromBuffer env buf opts) = Returned h r None \<longrightarrow>
            r = (if t = ImageTypeBMP then ImageTypePNG else t))"
proof -
  from assms(2,3)
  have ov: "overriddenType sniffed (applyOptions opts (defaultOptions sniffed)) = t"
    by (simp add: overriddenType_def)
  show ?thesis
  proof (cases "t = ImageTypeBMP")
    case True
    with ov have bmp: "overriddenType sniffed (applyOptions opts (defaultOptions sniffed)) =
        ImageTypeBMP"
      by simp
    note unfold = vipsLoadFromBuffer_bmp [OF assms(1) bmp]
    have tr: "transcoded (fst (vipsLoadFromBuffer env buf opts)) = [buf]"
      by (simp add: unfold transcoded_loadSupported split: option.splits)
    have q: "\<forall>q \<in> set (queriedTypes (fst (vipsLoadFromBuffer env buf opts))). q = ImageTypePNG"
      by (simp add: unfold queriedTypes_loadSupported split: option.splits)
    have c: "\<forall>c \<in> set (nativeCalls (fst (vipsLoadFromBuffer env buf opts))).
        loaderType c = ImageTypePNG"
      by (auto simp add: unfold split: option.splits dest: nativeCalls_loadSupported)
    have r: "\<forall>h r. snd (vipsLoadFromBuffer env buf opts) = Returned h r None \<longrightarrow>
        r = ImageTypePNG"
      by (auto simp add: unfold split: option.splits dest: loadSupported_returned)
    from True tr q c r show ?thesis by simp
  next
    case False
    note unfold = vipsLoadFromBuffer_plain [OF assms(1) ov False]
    have tr: "transcoded (fst (vipsLoadFromBuffer env buf opts)) = []"
      by (simp add: unfold transcoded_loadSupported)
    have q: "\<forall>q \<in> set (queriedTypes (fst (vipsLoadFromBuffer env buf opts))). q = t"
      by (simp add: unfold queriedTypes_loadSupported)
    have c: "\<forall>c \<in> set (nativeCalls (fst (vipsLoadFromBuffer env buf opts))). loaderType c = t"
      by (auto simp add: unfold dest: nativeCalls_loadSupported)
    have r: "\<forall>h r. snd (vipsLoadFromBuffer env buf opts) = Returned h r None \<longrightarrow> r = t"
      by (auto simp add: unfold dest: loadSupported_returned)
    from False tr q c r show ?thesis by auto
  qed
qed

theorem override_replaces_sniffed_tag_witness:
  "DetermineImageType (xmlDecode stubEnv) bmpBuf = Some ImageTypeBMP \<and>
   imageType (applyOptions [withImageType ImageTypeJPEG] (defaultOptions ImageTypeBMP)) =
     ImageTypeJPEG \<and>
   transcoded (fst (vipsLoadFromBuffer stubEnv bmpBuf [withImageType ImageTypeJPEG])) = [] \<and>
   queriedTypes (fst (vipsLoadFromBuffer stubEnv bmpBuf [withImageType ImageTypeJPEG])) =
     [ImageTypeJPEG] \<and>
   map loaderType
     (nativeCalls (fst (vipsLoadFromBuffer stubEnv bmpBuf [withImageType ImageTypeJPEG]))) =
     [ImageTypeJPEG]"
proof -
  have a: "DetermineImageType (xmlDecode stubEnv) bmpBuf = Some ImageTypeBMP"
    by (simp add: stubEnv_sel sniff_bmpBuf)
  have b: "imageType (applyOptions [withImageType ImageTypeJPEG]
      (defaultOptions ImageTypeBMP)) = ImageTypeJPEG"
    by (simp add: applyOptions_def withImageType_def)
  have c: "fst (vipsLoadFromBuffer stubEnv bmpBuf [withImageType ImageTypeJPEG]) =
      [Call_IsTypeSupported ImageTypeJPEG,
       Call_native (load_jpeg_buffer bmpBuf (C_int 1) (C_int 0) (C_int 0))]"
    using sniff_bmpBuf
    by (simp add: vipsLoadFromBuffer_def overriddenType_def applyOptions_def withImageType_def
        defaultOptions_def loadSupported_def loaderCall_def IsTypeSupported_def stubEnv_sel
        stubSupported_def stubNative_def stubBoolToInt_def bmpBuf_def)
  from override_replaces_sniffed_tag [OF a b]
  have "transcoded (fst (vipsLoadFromBuffer stubEnv bmpBuf [withImageType ImageTypeJPEG])) = []"
    by simp
  with a b show ?thesis by (simp add: c)
qed

text \<open>
  Claim C3 as stated (every step uses the override, for every value it can be set to)
  fails at two values. An override of \<open>ImageTypeUnknown\<close> on a JPEG buffer leaves the
  sniffed tag in use: the table is asked about JPEG and the JPEG loader is called. An
  override of \<open>ImageTypeBMP\<close> is used by the transcoding step only: the table is asked
  about PNG and the PNG loader is called.
\<close>

theorem override_not_used_everywhere:
  "DetermineImageType (xmlDecode stubEnv) jpegBuf = Some ImageTypeJPEG \<and>
   imageType (applyOptions [withImageType ImageTypeUnknown] (defaultOptions ImageTypeJPEG)) =
     ImageTypeUnknown \<and>
   queriedTypes (fst (vipsLoadFromBuffer stubEnv jpegBuf [withImageType ImageTypeUnknown])) =
     [ImageTypeJPEG] \<and>
   map loaderType
     (nativeCalls (fst (vipsLoadFromBuffer stubEnv jpegBuf [withImageType ImageTypeUnknown]))) =
     [ImageTypeJPEG] \<and>
   DetermineImageType (xmlDecode stubEnv) bmpBuf = Some ImageTypeBMP \<and>
   imageType (applyOptions [withImageType ImageTypeBMP] (defaultOptions ImageTypeBMP)) =
     ImageTypeBMP \<and>
   queriedTypes (fst (vipsLoadFromBuffer stubEnv bmpBuf [withImageType ImageTypeBMP])) =
     [ImageTypePNG] \<and>
   map loaderType
     (nativeCalls (fst (vipsLoadFromBuffer stubEnv bmpBuf [withImageType ImageTypeBMP]))) =
     [ImageTypePNG]"
proof -
  have a: "vipsLoadFromBuffer stubEnv jpegBuf [withImageType ImageTypeUnknown] =
      loadSupported stubEnv ImageTypeJPEG
        (params (applyOptions [withImageType ImageTypeUnknown] (defaultOptions ImageTypeJPEG)))
        jpegBuf"
    by (simp add: vipsLoadFromBuffer_def sniff_jpegBuf overriddenType_def applyOptions_def
        withImageType_def defaultOptions_def)
  have b: "fst (vipsLoadFromBuffer stubEnv bmpBuf [withImageType ImageTypeBMP]) =
      [Call_bmpToPNG bmpBuf, Call_IsTypeSupported ImageTypePNG,
       Call_native (load_png_buffer (pngHeader @ drop 2 bmpBuf))]"
    using sniff_bmpBuf
    by (simp add: vipsLoadFromBuffer_def bmpToPNG_stub_bmpBuf overriddenType_def
        applyOptions_def withImageType_def loadSupported_def loaderCall_def
        IsTypeSupported_def stubEnv_sel stubSupported_def stubNative_def pngHeader_def)
  show ?thesis
    by (simp add: a b loadSupported_jpegBuf_stub stubEnv_sel sniff_jpegBuf sniff_bmpBuf
        applyOptions_def withImageType_def)
qed

text \<open>
  Claim C4. With no mutator, the entry point runs with the default record: shrink 1, fail
  false, page 0, n 1, scale 1, subifd -1, dpi 72, unlimited false, thumbnail false,
  density "72x72", no format override, and \<open>autorotate\<close> true exactly when the resolved
  tag is HEIF. The resolved tag is the sniffed tag; for a sniffed tag other than BMP the
  entry point is the capability check and dispatch on that tag, that record and the
  buffer, and for BMP it is the transcoding followed by the same on PNG, that record
  (with \<open>autorotate\<close> false) and the encoded buffer. A successful return reports HEIF
  exactly when \<open>autorotate\<close> is true.
\<close>

theorem defaults_without_mutators:
  assumes "DetermineImageType (xmlDecode env) buf = Some sniffed"
  shows "applyOptions [] (defaultOptions sniffed) =
           \<lparr> imageType = ImageTypeUnknown,
             params = \<lparr> shrink = 1, fail = False,
                        autorotate =
                          (overriddenType sniffed (applyOptions [] (defaultOptions sniffed)) =
                             ImageTypeHEIF),
                        page = 0, n_frames = 1, scale = 1, subifd = -1, dpi = 72,
                        unlimited = False, thumbnail = False, density = ''72x72'' \<rparr> \<rparr> \<and>
         overriddenType sniffed (applyOptions [] (defaultOptions sniffed)) = sniffed \<and>
         (sniffed \<noteq> ImageTypeBMP \<longrightarrow>
            vipsLoadFromBuffer env buf [] =
              loadSupported env sniffed
                \<lparr> shrink = 1, fail = False, autorotate = (sniffed = ImageTypeHEIF),
                  page = 0, n_frames = 1, scale = 1, subifd = -1, dpi = 72,
                  unlimited = False, thumbnail = False, density = ''72x72'' \<rparr> buf) \<and>
         (sniffed = ImageTypeBMP \<longrightarrow>
            vipsLoadFromBuffer env buf [] =
              (case snd (bmpToPNG env buf) of
                 Some e \<Rightarrow> ([Call_bmpToPNG buf], Returned None ImageTypeUnknown (Some e))
               | None \<Rightarrow>
                   (Call_bmpToPNG buf #
                      fst (loadSupported env ImageTypePNG
                             \<lparr> shrink = 1, fail = False, autorotate = False,
                               page = 0, n_frames = 1, scale = 1, subifd = -1, dpi = 72,
                               unlimited = False, thumbnail = False, density = ''72x72'' \<rparr>
                             (fst (bmpToPNG env buf))),
                    snd (loadSupported env ImageTypePNG
                             \<lparr> shrink = 1, fail = False, autorotate = False,
                               page = 0, n_frames = 1, scale = 1, subifd = -1, dpi = 72,
                               unlimited = False, thumbnail = False, density = ''72x72'' \<rparr>
                             (fst (bmpToPNG env buf)))))) \<and>
         (\<forall>h t. snd (vipsLoadFromBuffer env buf []) = Returned h t None \<longrightarrow>
            autorotate (params (applyOptions [] (defaultOptions sniffed))) =
              (t = ImageTypeHEIF))"
proof -
  have ov: "overriddenType sniffed (applyOptions [] (defaultOptions sniffed)) = sniffed"
    by (simp add: overriddenType_def applyOptions_Nil defaultOptions_def)
  have cfg: "applyOptions [] (defaultOptions sniffed) =
           \<lparr> imageType = ImageTypeUnknown,
             params = \<lparr> shrink = 1, fail = False,
                        autorotate =
                          (overriddenType sniffed (applyOptions [] (defaultOptions sniffed)) =
                             ImageTypeHEIF),
                        page = 0, n_frames = 1, scale = 1, subifd = -1, dpi = 72,
                        unlimited = False, thumbnail = False, density = ''72x72'' \<rparr> \<rparr>"
    unfolding ov by (simp add: applyOptions_Nil defaultOptions_def)
  have par: "params (applyOptions [] (defaultOptions sniffed)) =
      \<lparr> shrink = 1, fail = False, autorotate = (sniffed = ImageTypeHEIF),
        page = 0, n_frames = 1, scale = 1, subifd = -1, dpi = 72,
        unlimited = False, thumbnail = False, density = ''72x72'' \<rparr>"
    by (simp add: applyOptions_Nil defaultOptions_def)
  have plain: "sniffed \<noteq> ImageTypeBMP \<longrightarrow>
      vipsLoadFromBuffer env buf [] =
        loadSupported env sniffed
          \<lparr> shrink = 1, fail = False, autorotate = (sniffed = ImageTypeHEIF),
            page = 0, n_frames = 1, scale = 1, subifd = -1, dpi = 72,
            unlimited = False, thumbnail = False, density = ''72x72'' \<rparr> buf"
  proof
    assume "sniffed \<noteq> ImageTypeBMP"
    from vipsLoadFromBuffer_plain [OF assms ov this] show
      "vipsLoadFromBuffer env buf [] =
        loadSupported env sniffed
          \<lparr> shrink = 1, fail = False, autorotate = (sniffed = ImageTypeHEIF),
            page = 0, n_frames = 1, scale = 1, subifd = -1, dpi = 72,
            unlimited = False, thumbnail = False, density = ''72x72'' \<rparr> buf"
      by (simp only: par)
  qed
  have bmp: "sniffed = ImageTypeBMP \<longrightarrow>
      vipsLoadFromBuffer env buf [] =
        (case snd (bmpToPNG env buf) of
           Some e \<Rightarrow> ([Call_bmpToPNG buf], Returned None ImageTypeUnknown (Some e))
         | None \<Rightarrow>
             (Call_bmpToPNG buf #
                fst (loadSupported env ImageTypePNG
                       \<lparr> shrink = 1, fail = False, autorotate = False,
                         page = 0, n_frames = 1, scale = 1, subifd = -1, dpi = 72,
                         unlimited = False, thumbnail = False, density = ''72x72'' \<rparr>
                       (fst (bmpToPNG env buf))),
              snd (loadSupported env ImageTypePNG
                       \<lparr> shrink = 1, fail = False, autorotate = False,
                         page = 0, n_frames = 1, scale = 1, subifd = -1, dpi = 72,
                         unlimited = False, thumbnail = False, density = ''72x72'' \<rparr>
                       (fst (bmpToPNG env buf)))))"
  proof
    assume b: "sniffed = ImageTypeBMP"
    with ov have "overriddenType sniffed (applyOptions [] (defaultOptions sniffed)) =
        ImageTypeBMP" by simp
    from b have par_bmp: "params (applyOptions [] (defaultOptions sniffed)) =
        \<lparr> shrink = 1, fail = False, autorotate = False,
          page = 0, n_frames = 1, scale = 1, subifd = -1, dpi = 72,
          unlimited = False, thumbnail = False, density = ''72x72'' \<rparr>"
      by (simp add: applyOptions_Nil defaultOptions_def)
    from vipsLoadFromBuffer_bmp [OF assms \<open>overriddenType sniffed
        (applyOptions [] (defaultOptions sniffed)) = ImageTypeBMP\<close>] show
      "vipsLoadFromBuffer env buf [] =
        (case snd (bmpToPNG env buf) of
           Some e \<Rightarrow> ([Call_bmpToPNG buf], Returned None ImageTypeUnknown (Some e))
         | None \<Rightarrow>
             (Call_bmpToPNG buf #
                fst (loadSupported env ImageTypePNG
                       \<lparr> shrink = 1, fail = False, autorotate = False,
                         page = 0, n_frames = 1, scale = 1, subifd = -1, dpi = 72,
                         unlimited = False, thumbnail = False, density = ''72x72'' \<rparr>
                       (fst (bmpToPNG env buf))),
              snd (loadSupported env ImageTypePNG
                       \<lparr> shrink = 1, fail = False, autorotate = False,
                         page = 0, n_frames = 1, scale = 1, subifd = -1, dpi = 72,
                         unlimited = False, thumbnail = False, density = ''72x72'' \<rparr>
                       (fst (bmpToPNG env buf)))))"
      by (simp only: par_bmp)
  qed
  have auto_rot: "autorotate (params (applyOptions [] (defaultOptions sniffed))) =
      (sniffed = ImageTypeHEIF)"
    by (simp add: par)
  have tag: "\<forall>h t. snd (vipsLoadFromBuffer env buf []) = Returned h t None \<longrightarrow>
      (t = ImageTypeHEIF) = (sniffed = ImageTypeHEIF)"
  proof (cases "sniffed = ImageTypeBMP")
    case True
    with ov have "overriddenType sniffed (applyOptions [] (defaultOptions sniffed)) =
        ImageTypeBMP" by simp
    from vipsLoadFromBuffer_bmp [OF assms this] True show ?thesis
      by (auto split: option.splits dest: loadSupported_returned)
  next
    case False
    from vipsLoadFromBuffer_plain [OF assms ov False] show ?thesis
      by (auto dest: loadSupported_returned)
  qed
  from tag auto_rot
  have tag': "\<forall>h t. snd (vipsLoadFromBuffer env buf []) = Returned h t None \<longrightarrow>
      autorotate (params (applyOptions [] (defaultOptions sniffed))) = (t = ImageTypeHEIF)"
    by simp
  from cfg ov plain bmp tag' show ?thesis by blast
qed

theorem defaults_without_mutators_witness:
  "DetermineImageType (xmlDecode stubEnv) avifBuf = Some ImageTypeHEIF \<and>
   vipsLoadFromBuffer stubEnv avifBuf [] =
     loadSupported stubEnv ImageTypeHEIF
       \<lparr> shrink = 1, fail = False, autorotate = True,
         page = 0, n_frames = 1, scale = 1, subifd = -1, dpi = 72,
         unlimited = False, thumbnail = False, density = ''72x72'' \<rparr> avifBuf \<and>
   vipsLoadFromBuffer stubEnv avifBuf [] =
     ([Call_IsTypeSupported ImageTypeHEIF,
       Call_native (load_heif_buffer avifBuf (C_int 0) (C_int 1) (C_int 0))],
      Returned (Some 1) ImageTypeHEIF None) \<and>
   DetermineImageType (xmlDecode stubEnv) jpegBuf = Some ImageTypeJPEG \<and>
   vipsLoadFromBuffer stubEnv jpegBuf [] =
     ([Call_IsTypeSupported ImageTypeJPEG,
       Call_native (load_jpeg_buffer jpegBuf (C_int 1) (C_int 0) (C_int 0))],
      Returned (Some 1) ImageTypeJPEG None)"
proof -
  have a: "DetermineImageType (xmlDecode stubEnv) avifBuf = Some ImageTypeHEIF"
    by (simp add: stubEnv_sel avifBuf_def DetermineImageType_chain sniff_defs)
  have j: "DetermineImageType (xmlDecode stubEnv) jpegBuf = Some ImageTypeJPEG"
    by (simp add: sniff_jpegBuf)
  from defaults_without_mutators [OF a]
  have la: "vipsLoadFromBuffer stubEnv avifBuf [] =
     loadSupported stubEnv ImageTypeHEIF
       \<lparr> shrink = 1, fail = False, autorotate = True,
         page = 0, n_frames = 1, scale = 1, subifd = -1, dpi = 72,
         unlimited = False, thumbnail = False, density = ''72x72'' \<rparr> avifBuf"
    by simp
  from defaults_without_mutators [OF j]
  have lj: "vipsLoadFromBuffer stubEnv jpegBuf [] =
     loadSupported stubEnv ImageTypeJPEG
       \<lparr> shrink = 1, fail = False, autorotate = False,
         page = 0, n_frames = 1, scale = 1, subifd = -1, dpi = 72,
         unlimited = False, thumbnail = False, density = ''72x72'' \<rparr> jpegBuf"
    by simp
  have ea: "loadSupported stubEnv ImageTypeHEIF
       \<lparr> shrink = 1, fail = False, autorotate = True,
         page = 0, n_frames = 1, scale = 1, subifd = -1, dpi = 72,
         unlimited = False, thumbnail = False, density = ''72x72'' \<rparr> avifBuf =
     ([Call_IsTypeSupported ImageTypeHEIF,
       Call_native (load_heif_buffer avifBuf (C_int 0) (C_int 1) (C_int 0))],
      Returned (Some 1) ImageTypeHEIF None)"
    by (simp add: loadSupported_def loaderCall_def IsTypeSupported_def stubEnv_sel
        stubSupported_def stubNative_def stubBoolToInt_def avifBuf_def)
  have ej: "loadSupported stubEnv ImageTypeJPEG
       \<lparr> shrink = 1, fail = False, autorotate = False,
         page = 0, n_frames = 1, scale = 1, subifd = -1, dpi = 72,
         unlimited = False, thumbnail = False, density = ''72x72'' \<rparr> jpegBuf =
     ([Call_IsTypeSupported ImageTypeJPEG,
       Call_native (load_jpeg_buffer jpegBuf (C_int 1) (C_int 0) (C_int 0))],
      Returned (Some 1) ImageTypeJPEG None)"
    by (simp add: loadSupported_jpegBuf_stub stubBoolToInt_def)
  from a j la lj ea ej show ?thesis by simp
qed

text \<open>
  Claim C10, amended. Each error path returns the nil handle and \<open>ImageTypeUnknown\<close>
  together with its error: a failed transcoding returns the error of \<open>bmpToPNG\<close>, a tag
  that the capability table rejects returns \<open>ErrUnsupportedImageFormat\<close>, and a native
  call with a non-zero status returns what \<open>handleImageError\<close> makes of \<open>out\<close>.
  Whenever the entry point returns with an error, the handle is nil and the tag is
  \<open>ImageTypeUnknown\<close>; whenever it returns a tag other than \<open>ImageTypeUnknown\<close>, there
  is no error, and the handle is the value that the loader of that tag left in \<open>out\<close>
  together with status 0. That value is returned as it is, without a nil check.
\<close>

theorem error_paths_return_nil_unknown:
  "(\<forall>b \<in> set (transcoded (fst (vipsLoadFromBuffer env buf opts))).
      \<forall>e. snd (bmpToPNG env b) = Some e \<longrightarrow>
        snd (vipsLoadFromBuffer env buf opts) = Returned None ImageTypeUnknown (Some e)) \<and>
   (\<forall>q \<in> set (queriedTypes (fst (vipsLoadFromBuffer env buf opts))).
      \<not> IsTypeSupported env q \<longrightarrow>
        snd (vipsLoadFromBuffer env buf opts) =
          Returned None ImageTypeUnknown (Some ErrUnsupportedImageFormat)) \<and>
   (\<forall>c \<in> set (nativeCalls (fst (vipsLoadFromBuffer env buf opts))).
      fst (native env c) \<noteq> 0 \<longrightarrow>
        snd (vipsLoadFromBuffer env buf opts) =
          Returned None ImageTypeUnknown (Some (handleImageError env (snd (native env c))))) \<and>
   (\<forall>h t err. snd (vipsLoadFromBuffer env buf opts) = Returned h t err \<longrightarrow>
      (err \<noteq> None \<longrightarrow> h = None \<and> t = ImageTypeUnknown) \<and>
      (t \<noteq> ImageTypeUnknown \<longrightarrow>
         err = None \<and>
         (\<exists>c \<in> set (nativeCalls (fst (vipsLoadFromBuffer env buf opts))).
            loaderType c = t \<and> native env c = (0, h))))"
proof -
  obtain sniffed where sniff: "DetermineImageType (xmlDecode env) buf = Some sniffed"
    by (simp add: DetermineImageType_chain)
  define options where "options = applyOptions opts (defaultOptions sniffed)"
  define t0 where "t0 = overriddenType sniffed options"
  have ov: "overriddenType sniffed (applyOptions opts (defaultOptions sniffed)) = t0"
    by (simp add: t0_def options_def)
  show ?thesis
  proof (cases "t0 = ImageTypeBMP")
    case False
    have unfold: "vipsLoadFromBuffer env buf opts = loadSupported env t0 (params options) buf"
      using vipsLoadFromBuffer_plain [OF sniff ov False] by (simp add: options_def)
    have p1: "\<forall>b \<in> set (transcoded (fst (vipsLoadFromBuffer env buf opts))).
        \<forall>e. snd (bmpToPNG env b) = Some e \<longrightarrow>
          snd (vipsLoadFromBuffer env buf opts) = Returned None ImageTypeUnknown (Some e)"
      by (simp add: unfold transcoded_loadSupported)
    have p2: "\<forall>q \<in> set (queriedTypes (fst (vipsLoadFromBuffer env buf opts))).
        \<not> IsTypeSupported env q \<longrightarrow>
          snd (vipsLoadFromBuffer env buf opts) =
            Returned None ImageTypeUnknown (Some ErrUnsupportedImageFormat)"
      by (simp add: unfold queriedTypes_loadSupported loadSupported_unsupported)
    have p3: "\<forall>c \<in> set (nativeCalls (fst (vipsLoadFromBuffer env buf opts))).
        fst (native env c) \<noteq> 0 \<longrightarrow>
          snd (vipsLoadFromBuffer env buf opts) =
            Returned None ImageTypeUnknown (Some (handleImageError env (snd (native env c))))"
      by (simp add: unfold loadSupported_nonzero)
    have p4: "\<forall>h t err. snd (vipsLoadFromBuffer env buf opts) = Returned h t err \<longrightarrow>
        (err \<noteq> None \<longrightarrow> h = None \<and> t = ImageTypeUnknown) \<and>
        (t \<noteq> ImageTypeUnknown \<longrightarrow>
           err = None \<and>
           (\<exists>c \<in> set (nativeCalls (fst (vipsLoadFromBuffer env buf opts))).
              loaderType c = t \<and> native env c = (0, h)))"
      unfolding unfold by (rule loadSupported_discipline)
    from p1 p2 p3 p4 show ?thesis by blast
  next
    case True
    with ov have bmp: "overriddenType sniffed (applyOptions opts (defaultOptions sniffed)) =
        ImageTypeBMP"
      by simp
    note unfold0 = vipsLoadFromBuffer_bmp [OF sniff bmp]
    show ?thesis
    proof (cases "snd (bmpToPNG env buf)")
      case (Some e)
      with unfold0 have unfold: "vipsLoadFromBuffer env buf opts =
          ([Call_bmpToPNG buf], Returned None ImageTypeUnknown (Some e))"
        by simp
      from Some show ?thesis by (simp add: unfold)
    next
      case None
      define src where "src = fst (bmpToPNG env buf)"
      from None unfold0 have calls: "fst (vipsLoadFromBuffer env buf opts) =
          Call_bmpToPNG buf # fst (loadSupported env ImageTypePNG (params options) src)"
        and res: "snd (vipsLoadFromBuffer env buf opts) =
          snd (loadSupported env ImageTypePNG (params options) src)"
        by (simp_all add: options_def src_def)
      have p1: "\<forall>b \<in> set (transcoded (fst (vipsLoadFromBuffer env buf opts))).
          \<forall>e. snd (bmpToPNG env b) = Some e \<longrightarrow>
            snd (vipsLoadFromBuffer env buf opts) = Returned None ImageTypeUnknown (Some e)"
        using None by (simp add: calls transcoded_loadSupported)
      have p2: "\<forall>q \<in> set (queriedTypes (fst (vipsLoadFromBuffer env buf opts))).
          \<not> IsTypeSupported env q \<longrightarrow>
            snd (vipsLoadFromBuffer env buf opts) =
              Returned None ImageTypeUnknown (Some ErrUnsupportedImageFormat)"
        by (simp add: calls res queriedTypes_loadSupported loadSupported_unsupported)
      have p3: "\<forall>c \<in> set (nativeCalls (fst (vipsLoadFromBuffer env buf opts))).
          fst (native env c) \<noteq> 0 \<longrightarrow>
            snd (vipsLoadFromBuffer env buf opts) =
              Returned None ImageTypeUnknown (Some (handleImageError env (snd (native env c))))"
        by (simp add: calls res loadSupported_nonzero)
      have p4: "\<forall>h t err. snd (vipsLoadFromBuffer env buf opts) = Returned h t err \<longrightarrow>
          (err \<noteq> None \<longrightarrow> h = None \<and> t = ImageTypeUnknown) \<and>
          (t \<noteq> ImageTypeUnknown \<longrightarrow>
             err = None \<and>
             (\<exists>c \<in> set (nativeCalls (fst (vipsLoadFromBuffer env buf opts))).
                loaderType c = t \<and> native env c = (0, h)))"
        using loadSupported_discipline [of env ImageTypePNG "params options" src]
        by (simp add: calls res)
      from p1 p2 p3 p4 show ?thesis by blast
    qed
  qed
qed

theorem error_paths_return_nil_unknown_witness:
  "vipsLoadFromBuffer stubEnv [] [withImageType ImageTypeBMP] =
     ([Call_bmpToPNG []],
      Returned None ImageTypeUnknown (Some (ErrExternal ''bmp: invalid format''))) \<and>
   vipsLoadFromBuffer stubEnv jpegBuf [withImageType ImageTypeMagick] =
     ([Call_IsTypeSupported ImageTypeMagick],
      Returned None ImageTypeUnknown (Some ErrUnsupportedImageFormat)) \<and>
   map (native failingEnv) (nativeCalls (fst (vipsLoadFromBuffer failingEnv jpegBuf []))) =
     [(1, Some 2)] \<and>
   snd (vipsLoadFromBuffer failingEnv jpegBuf []) =
     Returned None ImageTypeUnknown (Some (ErrExternal ''vips error'')) \<and>
   map (native stubEnv) (nativeCalls (fst (vipsLoadFromBuffer stubEnv jpegBuf []))) =
     [(0, Some 1)] \<and>
   snd (vipsLoadFromBuffer stubEnv jpegBuf []) = Returned (Some 1) ImageTypeJPEG None"
proof -
  have t: "vipsLoadFromBuffer stubEnv [] [withImageType ImageTypeBMP] =
     ([Call_bmpToPNG []],
      Returned None ImageTypeUnknown (Some (ErrExternal ''bmp: invalid format'')))"
    by (simp add: vipsLoadFromBuffer_def sniff_empty bmpToPNG_stub_empty overriddenType_def
        applyOptions_def withImageType_def stubEnv_sel)
  have u: "vipsLoadFromBuffer stubEnv jpegBuf [withImageType ImageTypeMagick] =
     ([Call_IsTypeSupported ImageTypeMagick],
      Returned None ImageTypeUnknown (Some ErrUnsupportedImageFormat))"
    by (simp add: vipsLoadFromBuffer_def sniff_jpegBuf overriddenType_def applyOptions_def
        withImageType_def loadSupported_def IsTypeSupported_def stubEnv_sel stubSupported_def)
  have fcalls: "fst (vipsLoadFromBuffer failingEnv jpegBuf []) =
      [Call_IsTypeSupported ImageTypeJPEG,
       Call_native (load_jpeg_buffer jpegBuf (C_int 1) (C_int 0) (C_int 0))]"
    by (simp add: vipsLoadFromBuffer_def sniff_jpegBuf overriddenType_def applyOptions_def
        defaultOptions_def loadSupported_def loaderCall_def IsTypeSupported_def
        failingEnv_sel stubSupported_def stubBoolToInt_def failingNative_def
        jpegBuf_nonempty)
  have fnat: "native failingEnv c = (1, Some 2)" for c
    by (simp add: failingEnv_sel failingNative_def)
  have fnz: "map (native failingEnv) (nativeCalls (fst (vipsLoadFromBuffer failingEnv jpegBuf []))) =
     [(1, Some 2)]"
    by (simp add: fcalls fnat)
  have herr: "handleImageError failingEnv p = ErrExternal ''vips error''" for p
    by (simp add: failingEnv_sel stubHandleImageError_def)
  from error_paths_return_nil_unknown [of failingEnv jpegBuf "[]"]
  have fres: "snd (vipsLoadFromBuffer failingEnv jpegBuf []) =
     Returned None ImageTypeUnknown (Some (ErrExternal ''vips error''))"
    by (simp add: fcalls fnat herr)
  have a: "vipsLoadFromBuffer stubEnv jpegBuf [] =
      loadSupported stubEnv ImageTypeJPEG (params (defaultOptions ImageTypeJPEG)) jpegBuf"
    by (simp add: vipsLoadFromBuffer_def sniff_jpegBuf overriddenType_def applyOptions_def
        defaultOptions_def)
  have r: "snd (vipsLoadFromBuffer stubEnv jpegBuf []) = Returned (Some 1) ImageTypeJPEG None"
    by (simp add: a loadSupported_jpegBuf_stub)
  have n: "map (native stubEnv) (nativeCalls (fst (vipsLoadFromBuffer stubEnv jpegBuf []))) =
      [(0, Some 1)]"
    by (simp add: a loadSupported_jpegBuf_stub stubEnv_sel stubNative_def)
  from t u fnz fres n r show ?thesis by simp
qed

text \<open>
  Claim C10 as stated fails in its last part: the success return of line 278 hands back
  \<open>out\<close> as the C loader left it. With a native engine that reports status 0 and leaves
  \<open>out\<close> nil, a JPEG buffer is reported with the tag \<open>ImageTypeJPEG\<close>, no error and the
  nil handle.
\<close>

theorem nil_handle_with_tag_counterexample:
  "native nilOutEnv (load_jpeg_buffer jpegBuf (C_int 1) (C_int 0) (C_int 0)) = (0, None) \<and>
   vipsLoadFromBuffer nilOutEnv jpegBuf [] =
     ([Call_IsTypeSupported ImageTypeJPEG,
       Call_native (load_jpeg_buffer jpegBuf (C_int 1) (C_int 0) (C_int 0))],
      Returned None ImageTypeJPEG None)"
  by (simp add: vipsLoadFromBuffer_def sniff_jpegBuf overriddenType_def applyOptions_def
      defaultOptions_def loadSupported_def loaderCall_def IsTypeSupported_def
      nilOutEnv_sel stubSupported_def stubBoolToInt_def nilOutNative_def
      jpegBuf_nonempty)

end
